theory Spec2Isabelle
  imports Complex_Main
begin

section \<open>Data model\<close>

text \<open>
  The three source files (\<^verbatim>\<open>heat-map.tsx\<close>, \<^verbatim>\<open>heat-map-hybrid.tsx\<close>,
  \<^verbatim>\<open>heat-map-shader.tsx\<close>) share two string-literal unions, embedded as datatypes.
  A JavaScript \<^verbatim>\<open>number\<close> is embedded as a \<^typ>\<open>real\<close>: the IEEE rounding of each
  operation is not part of the model. The one non-finite value the pattern code can
  produce from finite arguments is NaN (a remainder by zero); it is the value
  \<^term>\<open>None\<close> of an option type.
\<close>

datatype PatternType = Waves | Ripples | Gradient | Checkerboard | Spiral

datatype ColorTheme = Github | Heat | Ocean | Rainbow | Monochrome | Purple

text \<open>
  A colour is the string \<^verbatim>\<open>getColor\<close> returns. The hexadecimal literals are kept as
  strings; the two template literals \<^verbatim>\<open>`hsl(${hue}, 80%, 60%)`\<close> and
  \<^verbatim>\<open>`hsl(0, 0%, ${lightness}%)`\<close> are kept as the constructor \<open>Hsl\<close> applied to the three
  numbers that are printed into the template.
\<close>

datatype ColorValue = Hex string | Hsl real real real

text \<open>
  The object literal \<^verbatim>\<open>{ col, row, count }\<close> that \<^verbatim>\<open>generatePattern\<close> pushes
  (\<^verbatim>\<open>heat-map.tsx\<close> line 97). The loop counters are integers; the count is an integer
  or NaN.
\<close>

record Cell =
  col :: int
  row :: int
  count :: "int option"

section \<open>Colour mapping and labels\<close>

text \<open>\<^verbatim>\<open>getColor\<close> of \<^verbatim>\<open>heat-map.tsx\<close> (lines 19-26): one theme, no clamp.\<close>

definition getColor_heatmap :: "real \<Rightarrow> ColorValue" where
  "getColor_heatmap cnt =
     (if cnt = 0 then Hex ''#ebedf0''
      else if cnt \<le> 2 then Hex ''#9be9a8''
      else if cnt \<le> 5 then Hex ''#40c463''
      else if cnt \<le> 8 then Hex ''#30a14e''
      else Hex ''#216e39'')"

text \<open>
  \<^verbatim>\<open>getColor\<close> of \<^verbatim>\<open>heat-map-shader.tsx\<close> (lines 16-63); the second \<^verbatim>\<open>getColor\<close> of
  \<^verbatim>\<open>heat-map-hybrid.tsx\<close> (lines 559-606) is the same text. The count is used as it
  comes. The \<^verbatim>\<open>default\<close> branch of the switch has no theme left to match.
\<close>

fun getColor_shader :: "real \<Rightarrow> ColorTheme \<Rightarrow> ColorValue" where
  "getColor_shader cnt Github =
     (if cnt = 0 then Hex ''#ebedf0''
      else if cnt \<le> 2 then Hex ''#9be9a8''
      else if cnt \<le> 5 then Hex ''#40c463''
      else if cnt \<le> 8 then Hex ''#30a14e''
      else Hex ''#216e39'')"
| "getColor_shader cnt Heat =
     (if cnt = 0 then Hex ''#f8f9fa''
      else if cnt \<le> 2 then Hex ''#ffccbc''
      else if cnt \<le> 5 then Hex ''#ff8a65''
      else if cnt \<le> 8 then Hex ''#e64a19''
      else Hex ''#bf360c'')"
| "getColor_shader cnt Ocean =
     (if cnt = 0 then Hex ''#f5f5f5''
      else if cnt \<le> 2 then Hex ''#bbdefb''
      else if cnt \<le> 5 then Hex ''#64b5f6''
      else if cnt \<le> 8 then Hex ''#1976d2''
      else Hex ''#0d47a1'')"
| "getColor_shader cnt Rainbow =
     (let hue = (cnt / 10) * 300 in Hsl hue 80 60)"
| "getColor_shader cnt Monochrome =
     (let lightness = 90 - cnt * 8 in Hsl 0 0 lightness)"
| "getColor_shader cnt Purple =
     (if cnt = 0 then Hex ''#f3e5f5''
      else if cnt \<le> 2 then Hex ''#ce93d8''
      else if cnt \<le> 5 then Hex ''#9c27b0''
      else if cnt \<le> 8 then Hex ''#6a1b9a''
      else Hex ''#4a148c'')"

text \<open>
  \<^verbatim>\<open>const safeCount = Math.max(0, Math.min(10, Math.floor(count)))\<close>, the first line of
  the first \<^verbatim>\<open>getColor\<close> of \<^verbatim>\<open>heat-map-hybrid.tsx\<close> (line 21).
\<close>

definition safeCount :: "real \<Rightarrow> real" where
  "safeCount cnt = max 0 (min 10 (of_int \<lfloor>cnt\<rfloor>))"

text \<open>
  \<^verbatim>\<open>getColor\<close> of \<^verbatim>\<open>heat-map-hybrid.tsx\<close> (lines 19-69): every branch reads
  \<^verbatim>\<open>safeCount\<close>, never \<^verbatim>\<open>count\<close>.
\<close>

fun getColor_hybrid :: "real \<Rightarrow> ColorTheme \<Rightarrow> ColorValue" where
  "getColor_hybrid cnt Github =
     (if safeCount cnt = 0 then Hex ''#ebedf0''
      else if safeCount cnt \<le> 2 then Hex ''#9be9a8''
      else if safeCount cnt \<le> 5 then Hex ''#40c463''
      else if safeCount cnt \<le> 8 then Hex ''#30a14e''
      else Hex ''#216e39'')"
| "getColor_hybrid cnt Heat =
     (if safeCount cnt = 0 then Hex ''#f8f9fa''
      else if safeCount cnt \<le> 2 then Hex ''#ffccbc''
      else if safeCount cnt \<le> 5 then Hex ''#ff8a65''
      else if safeCount cnt \<le> 8 then Hex ''#e64a19''
      else Hex ''#bf360c'')"
| "getColor_hybrid cnt Ocean =
     (if safeCount cnt = 0 then Hex ''#f5f5f5''
      else if safeCount cnt \<le> 2 then Hex ''#bbdefb''
      else if safeCount cnt \<le> 5 then Hex ''#64b5f6''
      else if safeCount cnt \<le> 8 then Hex ''#1976d2''
      else Hex ''#0d47a1'')"
| "getColor_hybrid cnt Rainbow =
     (let hue = (safeCount cnt / 10) * 300 in Hsl hue 80 60)"
| "getColor_hybrid cnt Monochrome =
     (let lightness = 90 - safeCount cnt * 8 in Hsl 0 0 lightness)"
| "getColor_hybrid cnt Purple =
     (if safeCount cnt = 0 then Hex ''#f3e5f5''
      else if safeCount cnt \<le> 2 then Hex ''#ce93d8''
      else if safeCount cnt \<le> 5 then Hex ''#9c27b0''
      else if safeCount cnt \<le> 8 then Hex ''#6a1b9a''
      else Hex ''#4a148c'')"

text \<open>
  \<^verbatim>\<open>getIntensityLabel\<close> (\<^verbatim>\<open>heat-map.tsx\<close> lines 29-35, \<^verbatim>\<open>heat-map-hybrid.tsx\<close>
  lines 609-615, the same text).
\<close>

definition getIntensityLabel :: "real \<Rightarrow> string" where
  "getIntensityLabel cnt =
     (if cnt = 0 then ''No activity''
      else if cnt \<le> 2 then ''Low activity''
      else if cnt \<le> 5 then ''Medium activity''
      else if cnt \<le> 8 then ''High activity''
      else ''Very high activity'')"

section \<open>JavaScript number operations\<close>

text \<open>
  \<^verbatim>\<open>x % y\<close> on numbers is the remainder of the division truncated towards zero: the
  result has the sign of \<open>x\<close>. A remainder by zero is NaN.
\<close>

definition js_trunc :: "real \<Rightarrow> int" where
  "js_trunc x = (if 0 \<le> x then \<lfloor>x\<rfloor> else \<lceil>x\<rceil>)"

definition js_rem :: "real \<Rightarrow> real \<Rightarrow> real option" where
  "js_rem x y = (if y = 0 then None else Some (x - y * of_int (js_trunc (x / y))))"

text \<open>\<^verbatim>\<open>Math.atan2(y, x)\<close>, with range \<open>(-\<pi>, \<pi>]\<close>; signed zeros are not modelled.\<close>

definition atan2 :: "real \<Rightarrow> real \<Rightarrow> real" where
  "atan2 y x =
     (if 0 < x then arctan (y / x)
      else if x < 0 \<and> 0 \<le> y then arctan (y / x) + pi
      else if x < 0 then arctan (y / x) - pi
      else if 0 < y then pi / 2
      else if y < 0 then - (pi / 2)
      else 0)"

section \<open>The pattern formulas on the CPU\<close>

text \<open>
  The body of the switch in \<^verbatim>\<open>PatternGenerator.generatePattern\<close>
  (\<^verbatim>\<open>heat-map-hybrid.tsx\<close> lines 105-151): the intensity \<^verbatim>\<open>value\<close> of one cell.
  \<open>cl\<close> and \<open>rw\<close> are the source's \<^verbatim>\<open>col\<close> and \<^verbatim>\<open>row\<close>; \<^verbatim>\<open>columns\<close> and
  \<^verbatim>\<open>rows\<close> come from the enclosing component.
\<close>

fun patternValue :: "PatternType \<Rightarrow> real \<Rightarrow> real \<Rightarrow> real \<Rightarrow> real \<Rightarrow> real \<Rightarrow> real option" where
  "patternValue Waves time columns rows cl rw =
     (let v = sin (cl * 0.2 + time * 0.1) + sin (rw * 0.2 + time * 0.1)
      in Some ((v + 2) / 4))"
| "patternValue Ripples time columns rows cl rw =
     (let centerX = columns / 2; centerY = rows / 2;
          dx = cl - centerX; dy = rw - centerY;
          distance = sqrt (dx * dx + dy * dy);
          rippleValue = sin (distance * 0.5 - time * 0.2)
      in Some ((rippleValue + 1) / 2))"
| "patternValue Gradient time columns rows cl rw =
     map_option (\<lambda>g. g / columns) (js_rem (cl + rw + time) columns)"
| "patternValue Checkerboard time columns rows cl rw =
     (let isEven = (js_rem (cl + rw + of_int \<lfloor>time / 5\<rfloor>) 2 = Some 0)
      in Some (if isEven then 1 else 0))"
| "patternValue Spiral time columns rows cl rw =
     (let centerX = columns / 2; centerY = rows / 2;
          spiralDx = cl - centerX; spiralDy = rw - centerY;
          spiralDistance = sqrt (spiralDx * spiralDx + spiralDy * spiralDy);
          angle = atan2 spiralDy spiralDx
      in map_option (\<lambda>v. v / (2 * pi))
           (js_rem (angle + spiralDistance * 0.1 + time * 0.05) (2 * pi)))"

text \<open>
  The body of the switch in \<^verbatim>\<open>generatePattern\<close> of \<^verbatim>\<open>heat-map.tsx\<close> (lines 45-95),
  repeated in \<^verbatim>\<open>InstancedCubes.generatePattern\<close> (\<^verbatim>\<open>heat-map-shader.tsx\<close> lines
  268-318) and in \<^verbatim>\<open>heat-map-hybrid.tsx\<close> (lines 998-1048): the \<^verbatim>\<open>count\<close> of one cell.
  No branch clamps the result of \<^verbatim>\<open>Math.floor\<close>.
\<close>

fun patternCount :: "PatternType \<Rightarrow> real \<Rightarrow> real \<Rightarrow> real \<Rightarrow> real \<Rightarrow> real \<Rightarrow> int option" where
  "patternCount Waves time columns rows cl rw =
     (let v = sin (cl * 0.2 + time * 0.1) + sin (rw * 0.2 + time * 0.1)
      in Some \<lfloor>((v + 2) / 4) * 10\<rfloor>)"
| "patternCount Ripples time columns rows cl rw =
     (let centerX = columns / 2; centerY = rows / 2;
          dx = cl - centerX; dy = rw - centerY;
          distance = sqrt (dx * dx + dy * dy);
          rippleValue = sin (distance * 0.5 - time * 0.2)
      in Some \<lfloor>((rippleValue + 1) / 2) * 10\<rfloor>)"
| "patternCount Gradient time columns rows cl rw =
     map_option (\<lambda>gradientValue. \<lfloor>(gradientValue / columns) * 10\<rfloor>)
       (js_rem (cl + rw + time) columns)"
| "patternCount Checkerboard time columns rows cl rw =
     (let isEven = (js_rem (cl + rw + of_int \<lfloor>time / 5\<rfloor>) 2 = Some 0)
      in Some (if isEven then 10 else 0))"
| "patternCount Spiral time columns rows cl rw =
     (let centerX = columns / 2; centerY = rows / 2;
          spiralDx = cl - centerX; spiralDy = rw - centerY;
          spiralDistance = sqrt (spiralDx * spiralDx + spiralDy * spiralDy);
          angle = atan2 spiralDy spiralDx
      in map_option (\<lambda>spiralValue. \<lfloor>(spiralValue / (2 * pi)) * 10\<rfloor>)
           (js_rem (angle + spiralDistance * 0.1 + time * 0.05) (2 * pi)))"

section \<open>The frame generator of the 2D grid\<close>

text \<open>
  \<^verbatim>\<open>generatePattern\<close> of \<^verbatim>\<open>heat-map.tsx\<close> (lines 38-102): two nested counting loops
  that push one cell per step onto \<^verbatim>\<open>newData\<close>. \<open>cellAt\<close> is the pushed object, the
  inner loop is \<open>rowLoop\<close>, the outer one \<open>colLoop\<close>; \<^verbatim>\<open>columns\<close> and \<^verbatim>\<open>rows\<close> are constants of the component
  (52 and 20) and parameters here.
\<close>

definition cellAt :: "PatternType \<Rightarrow> real \<Rightarrow> int \<Rightarrow> int \<Rightarrow> int \<Rightarrow> int \<Rightarrow> Cell" where
  "cellAt patternType time columns rows c r =
     \<lparr>col = c, row = r,
      count = patternCount patternType time (of_int columns) (of_int rows) (of_int c) (of_int r)\<rparr>"

function rowLoop :: "PatternType \<Rightarrow> real \<Rightarrow> int \<Rightarrow> int \<Rightarrow> int \<Rightarrow> int \<Rightarrow> Cell list \<Rightarrow> Cell list" where
  "rowLoop patternType time columns rows c r newData =
     (if r < rows
      then rowLoop patternType time columns rows c (r + 1)
             (newData @ [cellAt patternType time columns rows c r])
      else newData)"
  by pat_completeness auto
termination
  by (relation "measure (\<lambda>(patternType, time, columns, rows, c, r, newData). nat (rows - r))") auto

function colLoop :: "PatternType \<Rightarrow> real \<Rightarrow> int \<Rightarrow> int \<Rightarrow> int \<Rightarrow> Cell list \<Rightarrow> Cell list" where
  "colLoop patternType time columns rows c newData =
     (if c < columns
      then colLoop patternType time columns rows (c + 1)
             (rowLoop patternType time columns rows c 0 newData)
      else newData)"
  by pat_completeness auto
termination
  by (relation "measure (\<lambda>(patternType, time, columns, rows, c, newData). nat (columns - c))") auto

definition generatePattern :: "int \<Rightarrow> int \<Rightarrow> PatternType \<Rightarrow> real \<Rightarrow> Cell list" where
  "generatePattern columns rows patternType time = colLoop patternType time columns rows 0 []"

declare rowLoop.simps [simp del]

declare colLoop.simps [simp del]

section \<open>The frame generator of the hybrid renderer\<close>

text \<open>
  \<^verbatim>\<open>PatternGenerator.generatePattern\<close> (\<^verbatim>\<open>heat-map-hybrid.tsx\<close> lines 97-159) runs one
  loop over the index \<open>i\<close>, decodes \<^verbatim>\<open>col = i % columns\<close> and
  \<^verbatim>\<open>row = Math.floor(i / columns)\<close>, and stores the intensity at \<^verbatim>\<open>data[i]\<close>.
  With \<^verbatim>\<open>columns = 0\<close> the decoded \<^verbatim>\<open>col\<close> is NaN and \<^verbatim>\<open>row\<close> is NaN or infinite:
  every formula is then NaN, but the comparison \<^verbatim>\<open>=== 0\<close> of Checkerboard is false and
  gives the value 0.
\<close>

definition indexValue :: "PatternType \<Rightarrow> real \<Rightarrow> int \<Rightarrow> int \<Rightarrow> int \<Rightarrow> real option" where
  "indexValue patternType time columns rows i =
     (case js_rem (of_int i) (of_int columns) of
        None \<Rightarrow> (if patternType = Checkerboard then Some 0 else None)
      | Some cl \<Rightarrow>
          patternValue patternType time (of_int columns) (of_int rows) cl
            (of_int \<lfloor>(of_int i :: real) / of_int columns\<rfloor>))"

text \<open>
  An element store of a \<^verbatim>\<open>Float32Array\<close>: an index outside the array is ignored. The
  rounding of the stored number to single precision is not modelled.
\<close>

definition typedArraySet :: "real option list \<Rightarrow> int \<Rightarrow> real option \<Rightarrow> real option list" where
  "typedArraySet data i v = (if 0 \<le> i \<and> nat i < length data then data[nat i := v] else data)"

function fillLoop :: "PatternType \<Rightarrow> real \<Rightarrow> int \<Rightarrow> int \<Rightarrow> int \<Rightarrow> real option list \<Rightarrow> real option list" where
  "fillLoop patternType time columns rows i data =
     (if i < columns * rows
      then fillLoop patternType time columns rows (i + 1)
             (typedArraySet data i (indexValue patternType time columns rows i))
      else data)"
  by pat_completeness auto
termination
  by (relation "measure (\<lambda>(patternType, time, columns, rows, i, data). nat (columns * rows - i))") auto

declare fillLoop.simps [simp del]

section \<open>Arrays as objects in a store\<close>

text \<open>
  The frames are JavaScript arrays, shared by reference. A store maps references to the
  arrays allocated so far; \<open>fresh\<close> is the next unused reference.
\<close>

datatype obj = CellArray "Cell list" | Float32Array "real option list"

record store =
  heap :: "nat \<Rightarrow> obj option"
  fresh :: nat

definition emptyStore :: store where
  "emptyStore = \<lparr>heap = (\<lambda>r. None), fresh = 0\<rparr>"

definition wellFormed :: "store \<Rightarrow> bool" where
  "wellFormed s = (dom (heap s) \<subseteq> {..<fresh s})"

text \<open>
  \<^verbatim>\<open>generatePattern\<close> of \<^verbatim>\<open>heat-map.tsx\<close> as a store operation: \<^verbatim>\<open>const newData = []\<close>
  allocates a new array, the loops push onto it and its reference is returned.
\<close>

definition generatePattern_ref :: "store \<Rightarrow> int \<Rightarrow> int \<Rightarrow> PatternType \<Rightarrow> real \<Rightarrow> nat \<times> store" where
  "generatePattern_ref s columns rows patternType time =
     (let newData = fresh s
      in (newData,
          s\<lparr>heap := (heap s)(newData \<mapsto> CellArray (generatePattern columns rows patternType time)),
            fresh := newData + 1\<rparr>))"

text \<open>
  \<^verbatim>\<open>new Float32Array(n)\<close>, as in \<^verbatim>\<open>useRef(new Float32Array(columns * rows))\<close>
  (\<^verbatim>\<open>heat-map-hybrid.tsx\<close> line 94): a zero-filled array; a negative length is a
  RangeError.
\<close>

definition newFloat32Array :: "store \<Rightarrow> int \<Rightarrow> (nat \<times> store) option" where
  "newFloat32Array s n =
     (if n < 0 then None
      else Some (fresh s,
                 s\<lparr>heap := (heap s)(fresh s \<mapsto> Float32Array (replicate (nat n) (Some 0))),
                   fresh := fresh s + 1\<rparr>))"

text \<open>
  \<^verbatim>\<open>PatternGenerator.generatePattern\<close> as a store operation: \<^verbatim>\<open>const data =
  dataRef.current\<close> reads the one array of the component, the loop writes into it, and
  \<^verbatim>\<open>onUpdate(data)\<close> hands the same reference to the consumer. The result is that
  reference and the store after the call; \<^term>\<open>None\<close> stands for a reference that holds
  no \<^verbatim>\<open>Float32Array\<close>.
\<close>

definition generatePattern_hybrid ::
  "store \<Rightarrow> nat \<Rightarrow> int \<Rightarrow> int \<Rightarrow> PatternType \<Rightarrow> real \<Rightarrow> (nat \<times> store) option" where
  "generatePattern_hybrid s dataRef columns rows patternType time =
     (case heap s dataRef of
        Some (Float32Array data) \<Rightarrow>
          Some (dataRef,
                s\<lparr>heap := (heap s)(dataRef \<mapsto>
                     Float32Array (fillLoop patternType time columns rows 0 data))\<rparr>)
      | _ \<Rightarrow> None)"

text \<open>
  The two refs of a mounted \<^verbatim>\<open>PatternGenerator\<close> (\<^verbatim>\<open>heat-map-hybrid.tsx\<close> lines 93-94):
  \<^verbatim>\<open>timeRef = useRef(0)\<close> and \<^verbatim>\<open>dataRef = useRef(new Float32Array(columns * rows))\<close>.
  The argument of \<^verbatim>\<open>useRef\<close> is evaluated with the resolution of the first render; the
  ref keeps that array for the life of the component, whatever resolution later
  renders pass.
\<close>

record PatternGenerator =
  dataRef :: nat
  timeRef :: real

definition mountPatternGenerator :: "store \<Rightarrow> int \<Rightarrow> int \<Rightarrow> (PatternGenerator \<times> store) option" where
  "mountPatternGenerator s columns rows =
     (case newFloat32Array s (columns * rows) of
        None \<Rightarrow> None
      | Some (r, s') \<Rightarrow> Some (\<lparr>dataRef = r, timeRef = 0\<rparr>, s'))"

text \<open>
  The callback of \<^verbatim>\<open>useFrame\<close> (lines 162-165), run once per rendered frame with the
  props of that render: \<^verbatim>\<open>timeRef.current += 0.05 * animationSpeed\<close>, then
  \<^verbatim>\<open>generatePattern(pattern, timeRef.current)\<close>.
\<close>

definition useFrame ::
  "store \<Rightarrow> PatternGenerator \<Rightarrow> int \<Rightarrow> int \<Rightarrow> real \<Rightarrow> PatternType \<Rightarrow> (PatternGenerator \<times> store) option" where
  "useFrame s g columns rows animationSpeed pattern =
     (let time = timeRef g + 0.05 * animationSpeed
      in case generatePattern_hybrid s (dataRef g) columns rows pattern time of
           None \<Rightarrow> None
         | Some (r, s') \<Rightarrow> Some (g\<lparr>timeRef := time\<rparr>, s'))"

text \<open>
  A run of frames at one resolution; each frame has its own \<^verbatim>\<open>pattern\<close> and
  \<^verbatim>\<open>animationSpeed\<close>.
\<close>

fun runFrames ::
  "store \<Rightarrow> PatternGenerator \<Rightarrow> int \<Rightarrow> int \<Rightarrow> (PatternType \<times> real) list \<Rightarrow> (PatternGenerator \<times> store) option" where
  "runFrames s g columns rows [] = Some (g, s)"
| "runFrames s g columns rows ((pattern, animationSpeed) # ps) =
     (case useFrame s g columns rows animationSpeed pattern of
        None \<Rightarrow> None
      | Some (g', s') \<Rightarrow> runFrames s' g' columns rows ps)"

text \<open>
  An element read of a \<^verbatim>\<open>Float32Array\<close>: outside the array it is \<^verbatim>\<open>undefined\<close>, which
  the arithmetic that follows turns into NaN.
\<close>

definition typedArrayGet :: "real option list \<Rightarrow> int \<Rightarrow> real option" where
  "typedArrayGet data i = (if 0 \<le> i \<and> nat i < length data then data ! nat i else None)"

text \<open>
  The consumer of the buffer, the loop body of \<^verbatim>\<open>Cubes\<close> (lines 199-204): for the
  index \<open>i\<close> it decodes \<^verbatim>\<open>col = i % columns\<close> and \<^verbatim>\<open>row = Math.floor(i / columns)\<close>, reads
  \<^verbatim>\<open>value = data[i]\<close> and takes \<^verbatim>\<open>count = Math.floor(value * 10)\<close>. The result is the
  triple of \<^verbatim>\<open>col\<close>, \<^verbatim>\<open>row\<close> and \<^verbatim>\<open>count\<close>.
\<close>

definition cubeAt :: "int \<Rightarrow> real option list \<Rightarrow> int \<Rightarrow> real option \<times> int option \<times> int option" where
  "cubeAt columns data i =
     (js_rem (of_int i) (of_int columns),
      (if columns = 0 then None else Some \<lfloor>(of_int i :: real) / of_int columns\<rfloor>),
      map_option (\<lambda>value. \<lfloor>value * 10\<rfloor>) (typedArrayGet data i))"

section \<open>The pattern formulas in the fragment shader\<close>

text \<open>
  GLSL \<^verbatim>\<open>mod(x, y)\<close> is \<^verbatim>\<open>x - y * floor(x / y)\<close>, \<^verbatim>\<open>length\<close> is the Euclidean norm and
  \<^verbatim>\<open>atan(y, x)\<close> is the angle of the point \<open>(x, y)\<close>. A result that GLSL leaves
  undefined (\<^verbatim>\<open>mod\<close> by zero, \<^verbatim>\<open>atan(0, 0)\<close>) is \<^term>\<open>None\<close>. Single precision is
  not modelled.
\<close>

definition glsl_mod :: "real \<Rightarrow> real \<Rightarrow> real option" where
  "glsl_mod x y = (if y = 0 then None else Some (x - y * of_int \<lfloor>x / y\<rfloor>))"

definition glsl_length :: "real \<times> real \<Rightarrow> real" where
  "glsl_length v = sqrt (fst v * fst v + snd v * snd v)"

definition glsl_atan :: "real \<Rightarrow> real \<Rightarrow> real option" where
  "glsl_atan y x = (if x = 0 \<and> y = 0 then None else Some (atan2 y x))"

text \<open>
  \<^verbatim>\<open>patternIndex\<close> of \<^verbatim>\<open>createShaderMaterial\<close> (\<^verbatim>\<open>heat-map-shader.tsx\<close> lines 73-79).
\<close>

fun patternIndex :: "PatternType \<Rightarrow> int" where
  "patternIndex Waves = 0"
| "patternIndex Ripples = 1"
| "patternIndex Gradient = 2"
| "patternIndex Checkerboard = 3"
| "patternIndex Spiral = 4"

text \<open>
  \<^verbatim>\<open>getPatternValue\<close> of the fragment shader (\<^verbatim>\<open>heat-map-shader.tsx\<close> lines 120-160).
  The uniform \<^verbatim>\<open>resolution\<close> is the first argument.
\<close>

definition getPatternValue :: "real \<times> real \<Rightarrow> real \<times> real \<Rightarrow> int \<Rightarrow> real \<Rightarrow> real option" where
  "getPatternValue resolution pos patternType time =
     (let scaledPos = (fst pos * fst resolution, snd pos * snd resolution);
          center = (fst resolution * 0.5, snd resolution * 0.5)
      in if patternType = 0 then
           (let v = sin (fst scaledPos * 0.2 + time) + sin (snd scaledPos * 0.2 + time)
            in Some ((v + 2.0) / 4.0))
         else if patternType = 1 then
           (let centered = (fst scaledPos - fst center, snd scaledPos - snd center);
                dst = glsl_length centered;
                v = sin (dst * 0.5 - time)
            in Some ((v + 1.0) / 2.0))
         else if patternType = 2 then
           map_option (\<lambda>m. m / fst resolution)
             (glsl_mod (fst scaledPos + snd scaledPos + time * 5.0) (fst resolution))
         else if patternType = 3 then
           (let timeOffset = of_int \<lfloor>time * 0.2\<rfloor>
            in glsl_mod (of_int \<lfloor>fst scaledPos\<rfloor> + of_int \<lfloor>snd scaledPos\<rfloor> + timeOffset) 2.0)
         else if patternType = 4 then
           (let centered = (fst scaledPos - fst center, snd scaledPos - snd center)
            in case glsl_atan (snd centered) (fst centered) of
                 None \<Rightarrow> None
               | Some angle \<Rightarrow>
                   (let dst = glsl_length centered
                    in map_option (\<lambda>m. m / 6.28)
                         (glsl_mod (angle + dst * 0.1 + time * 0.5) 6.28)))
         else Some 0.5)"

text \<open>
  The call in the shader's \<^verbatim>\<open>main\<close> (line 164):
  \<^verbatim>\<open>getPatternValue(vUv, pattern, time * animationSpeed)\<close>.
\<close>

definition fragmentValue :: "real \<times> real \<Rightarrow> real \<times> real \<Rightarrow> PatternType \<Rightarrow> real \<Rightarrow> real \<Rightarrow> real option" where
  "fragmentValue resolution vUv pattern time animationSpeed =
     getPatternValue resolution vUv (patternIndex pattern) (time * animationSpeed)"

section \<open>Colour mapping: results\<close>

lemma safeCount_range: "0 \<le> safeCount cnt \<and> safeCount cnt \<le> 10"
  by (simp add: safeCount_def)

lemma safeCount_idem: "safeCount (safeCount cnt) = safeCount cnt"
  by (simp add: safeCount_def max_def min_def)

lemma getColor_hybrid_clamp: "getColor_hybrid (safeCount cnt) theme = getColor_hybrid cnt theme"
  by (cases theme) (simp_all add: safeCount_idem)

lemma getColor_shader_in_range:
  "0 \<le> cnt \<Longrightarrow> cnt \<le> 10 \<Longrightarrow> getColor_shader (of_int \<lfloor>cnt\<rfloor>) theme = getColor_hybrid cnt theme"
  by (cases theme) (simp_all add: safeCount_def max_def min_def)

text \<open>
  C6. For the theme Github, each of the three \<^verbatim>\<open>getColor\<close> functions returns the
  literal band colours at the band boundaries 0, 2, 3, 8 and 9, and one colour
  within each of the bands 0, 1-2, 3-5, 6-8 and 9-10.
\<close>

theorem getColor_github_boundaries:
  "map getColor_heatmap [0, 2, 3, 8, 9] =
     [Hex ''#ebedf0'', Hex ''#9be9a8'', Hex ''#40c463'', Hex ''#30a14e'', Hex ''#216e39''] \<and>
   map (\<lambda>c. getColor_hybrid c Github) [0, 2, 3, 8, 9] =
     [Hex ''#ebedf0'', Hex ''#9be9a8'', Hex ''#40c463'', Hex ''#30a14e'', Hex ''#216e39''] \<and>
   map (\<lambda>c. getColor_shader c Github) [0, 2, 3, 8, 9] =
     [Hex ''#ebedf0'', Hex ''#9be9a8'', Hex ''#40c463'', Hex ''#30a14e'', Hex ''#216e39''] \<and>
   map (\<lambda>c. getColor_hybrid c Github) [0, 1, 2, 3, 4, 5, 6, 7, 8, 9, 10] =
     [Hex ''#ebedf0'', Hex ''#9be9a8'', Hex ''#9be9a8'', Hex ''#40c463'', Hex ''#40c463'',
      Hex ''#40c463'', Hex ''#30a14e'', Hex ''#30a14e'', Hex ''#30a14e'', Hex ''#216e39'',
      Hex ''#216e39'']"
  by (simp add: getColor_heatmap_def safeCount_def)

text \<open>
  C10. \<^verbatim>\<open>getIntensityLabel\<close> does not clamp: for every count below 0 the test
  \<^verbatim>\<open>count === 0\<close> fails and the test \<^verbatim>\<open>count <= 2\<close> succeeds, so the label is
  "Low activity" and not "No activity".
\<close>

theorem getIntensityLabel_negative:
  "cnt < 0 \<Longrightarrow> getIntensityLabel cnt = ''Low activity'' \<and> getIntensityLabel cnt \<noteq> ''No activity''"
  by (simp add: getIntensityLabel_def)

theorem getIntensityLabel_negative_witness:
  "(- 1::real) < 0 \<and> getIntensityLabel (- 1) = ''Low activity'' \<and>
   getIntensityLabel (- 1) \<noteq> ''No activity''"
  using getIntensityLabel_negative [of "- 1"] by simp

section \<open>Remainders\<close>

text \<open>
  The library states \<open>2 \<le> pi\<close> and \<open>pi < 4\<close>; the Spiral cells below need a lower
  bound above 2.
\<close>

lemma pi_ge_three: "3 \<le> pi"
proof -
  have "sin (pi / 6) \<le> pi / 6" by (rule sin_x_le_x) simp
  then show ?thesis by (simp add: sin_30)
qed

lemma js_rem_small:
  assumes "\<bar>x\<bar> < \<bar>y\<bar>"
  shows "js_rem x y = Some x"
proof -
  have y: "y \<noteq> 0" using assms by auto
  have a: "\<bar>x / y\<bar> < 1" using assms y by simp
  have "js_trunc (x / y) = 0"
  proof (cases "0 \<le> x / y")
    case True
    then have "\<lfloor>x / y\<rfloor> = 0" using a by (simp add: floor_eq_iff abs_if split: if_splits)
    then show ?thesis using True by (simp add: js_trunc_def)
  next
    case False
    then have "\<lceil>x / y\<rceil> = 0" using a by (simp add: ceiling_eq_iff abs_if split: if_splits)
    then show ?thesis using False by (simp add: js_trunc_def)
  qed
  then show ?thesis using y by (simp add: js_rem_def)
qed

text \<open>
  For a dividend that is not negative and a positive divisor, the truncated and the
  floored remainder agree.
\<close>

lemma js_rem_nonneg:
  assumes "0 \<le> x" "0 < y"
  shows "js_rem x y = Some (x - y * of_int \<lfloor>x / y\<rfloor>)"
  using assms by (simp add: js_rem_def js_trunc_def)

lemma js_rem_nonneg_range:
  assumes "0 \<le> x" "0 < y" "js_rem x y = Some g"
  shows "0 \<le> g \<and> g < y"
proof -
  have g: "g = x - y * of_int \<lfloor>x / y\<rfloor>" using assms by (simp add: js_rem_nonneg)
  have yx: "y * (x / y) = x" using assms(2) by simp
  have "y * of_int \<lfloor>x / y\<rfloor> \<le> y * (x / y)"
    using assms(2) by (intro mult_left_mono) simp_all
  then have lo: "y * of_int \<lfloor>x / y\<rfloor> \<le> x" unfolding yx .
  have "x / y < of_int \<lfloor>x / y\<rfloor> + 1" by linarith
  then have "y * (x / y) < y * (of_int \<lfloor>x / y\<rfloor> + 1)"
    using assms(2) by (intro mult_strict_left_mono)
  then have hi: "x < y * (of_int \<lfloor>x / y\<rfloor> + 1)" unfolding yx .
  from lo hi show ?thesis unfolding g by (simp add: algebra_simps)
qed

lemma js_rem_glsl_mod: "0 \<le> x \<Longrightarrow> 0 < y \<Longrightarrow> js_rem x y = glsl_mod x y"
  by (simp add: js_rem_nonneg glsl_mod_def)

lemma js_rem_of_int:
  assumes "0 \<le> i" "0 < n"
  shows "js_rem (of_int i) (of_int n) = Some (of_int (i mod n))"
proof -
  have "js_rem (of_int i) (of_int n) = Some (of_int i - of_int n * of_int \<lfloor>(of_int i :: real) / of_int n\<rfloor>)"
    using assms by (intro js_rem_nonneg) simp_all
  also have "\<lfloor>(of_int i :: real) / of_int n\<rfloor> = i div n" by (simp add: floor_divide_of_int_eq)
  also have "(of_int i :: real) - of_int n * of_int (i div n) = of_int (i mod n)"
    by (simp add: minus_mult_div_eq_mod[symmetric])
  finally show ?thesis .
qed

text \<open>The test \<^verbatim>\<open>% 2 === 0\<close> on an integer, of either sign, is the test for an even number.\<close>

lemma js_rem_two: "js_rem (of_int k) 2 = Some 0 \<longleftrightarrow> even k"
proof -
  have "js_rem (of_int k) 2 = Some (of_int k - 2 * of_int (js_trunc (of_int k / 2)))"
    by (simp add: js_rem_def)
  then have "js_rem (of_int k) 2 = Some 0 \<longleftrightarrow> (of_int k :: real) = of_int (2 * js_trunc (of_int k / 2))"
    by simp
  also have "\<dots> \<longleftrightarrow> k = 2 * js_trunc (of_int k / 2)" by (simp only: of_int_eq_iff)
  also have "\<dots> \<longleftrightarrow> even k"
  proof
    assume "k = 2 * js_trunc (of_int k / 2)"
    then show "even k" by (metis dvd_triv_left)
  next
    assume "even k"
    then obtain m where "k = 2 * m" by (auto elim: evenE)
    then show "k = 2 * js_trunc (of_int k / 2)" by (simp add: js_trunc_def)
  qed
  finally show ?thesis .
qed

section \<open>The loops of the 2D grid, unrolled\<close>

lemma rowLoop_eq:
  "rowLoop patternType time columns rows c r newData =
     newData @ map (cellAt patternType time columns rows c) [r..rows - 1]"
proof (induction patternType time columns rows c r newData rule: rowLoop.induct)
  case (1 patternType time columns rows c r newData)
  show ?case
  proof (cases "r < rows")
    case True
    then have u: "[r..rows - 1] = r # [r + 1..rows - 1]"
      by (simp add: upto_rec1)
    show ?thesis
      using True "1.IH" by (subst rowLoop.simps) (simp add: u)
  next
    case False
    then show ?thesis by (subst rowLoop.simps) simp
  qed
qed

lemma colLoop_eq:
  "colLoop patternType time columns rows c newData =
     newData @ concat (map (\<lambda>c'. map (cellAt patternType time columns rows c') [0..rows - 1])
                          [c..columns - 1])"
proof (induction patternType time columns rows c newData rule: colLoop.induct)
  case (1 patternType time columns rows c newData)
  show ?case
  proof (cases "c < columns")
    case True
    then have u: "[c..columns - 1] = c # [c + 1..columns - 1]"
      by (simp add: upto_rec1)
    show ?thesis
      using True "1.IH" by (subst colLoop.simps) (simp add: u rowLoop_eq)
  next
    case False
    then show ?thesis by (subst colLoop.simps) simp
  qed
qed

lemma generatePattern_eq:
  "generatePattern columns rows patternType time =
     map (\<lambda>(c, r). cellAt patternType time columns rows c r)
       (List.product [0..columns - 1] [0..rows - 1])"
  by (simp add: generatePattern_def colLoop_eq List.product_concat_map map_concat comp_def)


lemma length_upto_int: "length [0..n - 1] = nat n"
  by simp

lemma generatePattern_nth:
  assumes "0 \<le> c" "c < columns" "0 \<le> r" "r < rows"
  shows "generatePattern columns rows patternType time ! nat (c * rows + r) =
           cellAt patternType time columns rows c r"
proof -
  let ?n = "nat c * nat rows + nat r"
  have n: "nat (c * rows + r) = ?n"
    using assms by (simp add: nat_add_distrib nat_mult_distrib)
  have r: "nat r < nat rows" using assms by simp
  then have "?n < nat c * nat rows + nat rows" by simp
  also have "\<dots> = (nat c + 1) * nat rows" by simp
  also have "\<dots> \<le> nat columns * nat rows"
    using assms by (intro mult_le_mono1) simp
  finally have lt: "?n < nat columns * nat rows" .
  have "List.product [0..columns - 1] [0..rows - 1] ! ?n =
          ([0..columns - 1] ! nat c, [0..rows - 1] ! nat r)"
    using lt r by (simp add: List.product_nth)
  also have "\<dots> = (c, r)" using assms by (simp add: nth_upto)
  finally have p: "List.product [0..columns - 1] [0..rows - 1] ! ?n = (c, r)" .
  show ?thesis
    unfolding n generatePattern_eq using lt p by simp
qed

lemma generatePattern_empty:
  "columns \<le> 0 \<or> rows \<le> 0 \<Longrightarrow> generatePattern columns rows patternType time = []"
  by (auto simp: generatePattern_eq List.product_concat_map)

section \<open>The loop of the hybrid renderer, unrolled\<close>

lemma fillLoop_done: "columns * rows \<le> i \<Longrightarrow> fillLoop patternType time columns rows i data = data"
  by (subst fillLoop.simps) simp

lemma length_typedArraySet [simp]: "length (typedArraySet data i v) = length data"
  by (simp add: typedArraySet_def)

lemma nth_typedArraySet:
  "k < length data \<Longrightarrow> typedArraySet data i v ! k = (if i = int k then v else data ! k)"
  by (auto simp: typedArraySet_def nth_list_update)

lemma fillLoop_length [simp]: "length (fillLoop patternType time columns rows i data) = length data"
proof (induction patternType time columns rows i data rule: fillLoop.induct)
  case (1 patternType time columns rows i data)
  then show ?case by (subst fillLoop.simps) simp
qed

lemma fillLoop_nth:
  assumes "k < length data"
  shows "fillLoop patternType time columns rows i data ! k =
           (if i \<le> int k \<and> int k < columns * rows
            then indexValue patternType time columns rows (int k) else data ! k)"
  using assms
proof (induction patternType time columns rows i data rule: fillLoop.induct)
  case (1 patternType time columns rows i data)
  show ?case
  proof (cases "i < columns * rows")
    case True
    have "fillLoop patternType time columns rows i data ! k =
            fillLoop patternType time columns rows (i + 1)
              (typedArraySet data i (indexValue patternType time columns rows i)) ! k"
      using True by (subst fillLoop.simps) simp
    also have "\<dots> = (if i + 1 \<le> int k \<and> int k < columns * rows
            then indexValue patternType time columns rows (int k)
            else typedArraySet data i (indexValue patternType time columns rows i) ! k)"
      using True "1.prems" by (intro "1.IH") simp_all
    also have "\<dots> = (if i \<le> int k \<and> int k < columns * rows
            then indexValue patternType time columns rows (int k) else data ! k)"
      using True "1.prems" by (auto simp: nth_typedArraySet)
    finally show ?thesis .
  next
    case False
    then show ?thesis by (subst fillLoop.simps) auto
  qed
qed

lemma fillLoop_full:
  assumes "length data = nat (columns * rows)"
  shows "fillLoop patternType time columns rows 0 data =
           map (indexValue patternType time columns rows) [0..columns * rows - 1]"
proof (rule nth_equalityI)
  show "length (fillLoop patternType time columns rows 0 data) =
          length (map (indexValue patternType time columns rows) [0..columns * rows - 1])"
    using assms by simp
next
  fix k assume "k < length (fillLoop patternType time columns rows 0 data)"
  then have k: "k < nat (columns * rows)" using assms by simp
  then have "int k < columns * rows" by simp
  then show "fillLoop patternType time columns rows 0 data ! k =
          map (indexValue patternType time columns rows) [0..columns * rows - 1] ! k"
    using k assms by (simp add: fillLoop_nth nth_upto)
qed

lemma indexValue_decode:
  assumes "0 \<le> c" "c < columns" "0 \<le> r"
  shows "indexValue patternType time columns rows (r * columns + c) =
           patternValue patternType time (of_int columns) (of_int rows) (of_int c) (of_int r)"
proof -
  have pos: "0 < columns" "0 \<le> r * columns + c" using assms by simp_all
  have m: "(r * columns + c) mod columns = c" using assms by simp
  have d: "(r * columns + c) div columns = r" using assms by simp
  have "js_rem (of_int (r * columns + c)) (of_int columns) = Some (of_int c)"
    using js_rem_of_int [OF pos(2) pos(1)] m by simp
  moreover have "\<lfloor>(of_int (r * columns + c) :: real) / of_int columns\<rfloor> = r"
    using d by (simp only: floor_divide_of_int_eq)
  ultimately show ?thesis by (simp add: indexValue_def)
qed

section \<open>Frames\<close>


section \<open>Ranges of the pattern formulas\<close>

lemma waves_range:
  assumes "patternValue Waves time columns rows cl rw = Some v"
  shows "0 \<le> v \<and> v \<le> 1"
proof -
  let ?a = "sin (cl * 0.2 + time * 0.1)" and ?b = "sin (rw * 0.2 + time * 0.1)"
  have v: "v = (?a + ?b + 2) / 4" using assms by (simp add: Let_def)
  have "- 1 \<le> ?a" "?a \<le> 1" "- 1 \<le> ?b" "?b \<le> 1" by simp_all
  then have "0 \<le> ?a + ?b + 2 \<and> ?a + ?b + 2 \<le> 4" by linarith
  then show ?thesis unfolding v by simp
qed

lemma ripples_range:
  assumes "patternValue Ripples time columns rows cl rw = Some v"
  shows "0 \<le> v \<and> v \<le> 1"
proof -
  let ?dx = "cl - columns / 2" and ?dy = "rw - rows / 2"
  let ?x = "sqrt (?dx * ?dx + ?dy * ?dy) * 0.5 - time * 0.2"
  have v: "v = (sin ?x + 1) / 2" using assms by (simp add: Let_def)
  have "- 1 \<le> sin ?x" "sin ?x \<le> 1" by simp_all
  then have "0 \<le> sin ?x + 1 \<and> sin ?x + 1 \<le> 2" by linarith
  then show ?thesis unfolding v by simp
qed

lemma gradient_range:
  assumes "0 < columns" "0 \<le> cl + rw + time"
  shows "\<exists>v. patternValue Gradient time columns rows cl rw = Some v \<and> 0 \<le> v \<and> v < 1"
proof -
  obtain g where g: "js_rem (cl + rw + time) columns = Some g"
    using assms by (simp add: js_rem_def)
  have "0 \<le> g \<and> g < columns" using assms g by (intro js_rem_nonneg_range) auto
  then show ?thesis using assms g by simp
qed

lemma count_of_value:
  "patternCount patternType time columns rows cl rw =
     map_option (\<lambda>v. \<lfloor>v * 10\<rfloor>) (patternValue patternType time columns rows cl rw)"
  by (cases patternType) (simp_all add: Let_def option.map_comp comp_def)

text \<open>
  C7. For every cell, every grid and every time, negative ones included, the
  Checkerboard intensity is exactly 0 or exactly 1 and the count is exactly 0 or 10:
  the remainder, which may be -1, is only compared with 0. At a cell with integer
  coordinates the intensity is 1 exactly when \<open>col + row + \<lfloor>time / 5\<rfloor>\<close> is even; at
  time -5 the cell (0,0) has intensity 0.
\<close>

theorem checkerboard_binary:
  "patternValue Checkerboard time columns rows cl rw \<in> {Some 0, Some 1} \<and>
   patternCount Checkerboard time columns rows cl rw \<in> {Some 0, Some 10} \<and>
   patternValue Checkerboard time columns rows (of_int c) (of_int r) =
     Some (if even (c + r + \<lfloor>time / 5\<rfloor>) then 1 else 0) \<and>
   patternValue Checkerboard (- 5) columns rows 0 0 = Some 0"
proof -
  have "(of_int c :: real) + of_int r + of_int \<lfloor>time / 5\<rfloor> = of_int (c + r + \<lfloor>time / 5\<rfloor>)"
    by simp
  then have p: "(js_rem (of_int c + of_int r + of_int \<lfloor>time / 5\<rfloor>) 2 = Some 0) =
      even (c + r + \<lfloor>time / 5\<rfloor>)"
    by (simp only: js_rem_two)
  have n: "js_rem (- 1) 2 = Some (- 1)" by (rule js_rem_small) simp
  show ?thesis using p n by (simp add: Let_def)
qed

lemma spiral_below_centre:
  assumes "0 \<le> time" and "time < 8"
  shows "patternCount Spiral time columns rows (columns / 2) (rows / 2 - 5) = Some (- 2)"
proof -
  have p3: "3 \<le> pi" by (rule pi_ge_three)
  have p4: "pi < 4" using pi_less_4 by simp
  let ?v = "- (pi / 2) + 5 * 0.1 + time * 0.05 :: real"
  have "\<bar>?v\<bar> < \<bar>2 * pi\<bar>" using p3 p4 assms by (simp add: abs_if)
  then have r: "js_rem ?v (2 * pi) = Some ?v" by (rule js_rem_small)
  have a: "atan2 (rows / 2 - 5 - rows / 2) (columns / 2 - columns / 2) = - (pi / 2)"
    by (simp add: atan2_def)
  have s: "sqrt ((columns / 2 - columns / 2) * (columns / 2 - columns / 2) +
                 (rows / 2 - 5 - rows / 2) * (rows / 2 - 5 - rows / 2)) = 5"
    by simp
  show ?thesis
    unfolding patternCount.simps Let_def a s r using p3 p4 assms
    by (simp add: floor_eq_iff field_simps)
qed

text \<open>
  C1. The claim is that every count lies in [0,10] and is never negative, also for
  Spiral and for Gradient under negative time. The code does not clamp, although the
  comment above each of the two computations reads "Map to [0, 10]". In the first
  frame of \<^verbatim>\<open>heat-map.tsx\<close> (a grid of 52 by 20 cells, time 0.1) the Spiral cell at
  column 26 and row 5 has \<^verbatim>\<open>atan2\<close> equal to \<open>-\<pi>/2\<close> and distance 5, the remainder
  keeps the negative sign, and the count is -2: it is the element 525 of the returned
  frame. For Gradient at time -5 the cell (0,0) has count -1.
\<close>

theorem spiral_count_negative:
  "patternCount Spiral (1/10) 52 20 26 5 = Some (- 2) \<and>
   count (generatePattern 52 20 Spiral (1/10) ! 525) = Some (- 2) \<and>
   patternCount Gradient (- 5) 52 20 0 0 = Some (- 1)"
proof -
  have c: "patternCount Spiral (1/10) 52 20 26 5 = Some (- 2)"
    using spiral_below_centre [of "1/10" 52 20] by simp
  have "generatePattern 52 20 Spiral (1/10) ! nat (26 * 20 + 5) = cellAt Spiral (1/10) 52 20 26 5"
    by (rule generatePattern_nth) simp_all
  then have f: "count (generatePattern 52 20 Spiral (1/10) ! 525) = Some (- 2)"
    using c by (simp add: cellAt_def)
  have "js_rem (- 5) 52 = Some (- 5)" by (rule js_rem_small) simp
  then have g: "patternCount Gradient (- 5) 52 20 0 0 = Some (- 1)"
    by (simp add: floor_eq_iff)
  show ?thesis using c f g by simp
qed

text \<open>
  C3. The claim is that every \<^verbatim>\<open>getColor\<close> clamps its count to [0,10] first, so that
  the colour of a count and of the clamped count agree. The \<^verbatim>\<open>getColor\<close> of
  \<^verbatim>\<open>heat-map-hybrid.tsx\<close> line 19 does (\<open>getColor_hybrid_clamp\<close>). The \<^verbatim>\<open>getColor\<close> of
  \<^verbatim>\<open>heat-map-shader.tsx\<close> has no clamp. Its caller \<^verbatim>\<open>InstancedCubes.generatePattern\<close>
  passes it the count -2 for the Spiral cell at column 50 and row 20 of the grid of
  100 by 50 cells at the time 0.05 of its first frame; this count gets the colour of
  the band 1-2 and the clamped count 0 gets the colour of the band 0. The
  \<^verbatim>\<open>getColor\<close> of \<^verbatim>\<open>heat-map.tsx\<close> behaves the same way.
\<close>

theorem getColor_shader_negative_count:
  "patternCount Spiral 0.05 100 50 50 20 = Some (- 2) \<and>
   getColor_shader (- 2) Github = Hex ''#9be9a8'' \<and>
   getColor_shader (safeCount (- 2)) Github = Hex ''#ebedf0'' \<and>
   getColor_hybrid (- 2) Github = Hex ''#ebedf0'' \<and>
   getColor_heatmap (- 2) = Hex ''#9be9a8'' \<and>
   getColor_shader (- 2) Github \<noteq> getColor_shader (safeCount (- 2)) Github"
proof -
  have "patternCount Spiral 0.05 100 50 50 20 = Some (- 2)"
    using spiral_below_centre [of "0.05" 100 50] by simp
  then show ?thesis by (simp add: safeCount_def getColor_heatmap_def)
qed

section \<open>The shader against the CPU\<close>

lemma glsl_length_eq: "glsl_length (x, y) = sqrt (x * x + y * y)"
  by (simp add: glsl_length_def)

text \<open>
  C2, as claimed: the shader's \<^verbatim>\<open>getPatternValue\<close> and the CPU's \<^verbatim>\<open>generatePattern\<close>
  compute the same intensity for every pattern, cell, resolution and time. They do
  not: for Gradient on a grid of 10 by 10 cells, at the cell (0,0) and time 1, the
  shader adds \<^verbatim>\<open>time * 5.0\<close> and returns 1/2 where the CPU adds \<^verbatim>\<open>time\<close> and returns
  1/10; for Checkerboard at time 0 the shader returns the parity 0 of the cell (0,0)
  where the CPU returns 1.
\<close>

theorem shader_differs_from_cpu:
  "getPatternValue (10, 10) (0, 0) (patternIndex Gradient) 1 = Some (1 / 2) \<and>
   patternValue Gradient 1 10 10 0 0 = Some (1 / 10) \<and>
   getPatternValue (10, 10) (0, 0) (patternIndex Checkerboard) 0 = Some 0 \<and>
   patternValue Checkerboard 0 10 10 0 0 = Some 1 \<and>
   getPatternValue (10, 10) (0, 0) (patternIndex Gradient) 1 \<noteq> patternValue Gradient 1 10 10 0 0"
proof -
  have g: "getPatternValue (10, 10) (0, 0) (patternIndex Gradient) 1 = Some (1 / 2)"
    by (simp add: getPatternValue_def glsl_mod_def)
  have "js_rem 1 10 = Some 1" by (rule js_rem_small) simp
  then have c: "patternValue Gradient 1 10 10 0 0 = Some (1 / 10)" by simp
  have k: "getPatternValue (10, 10) (0, 0) (patternIndex Checkerboard) 0 = Some 0"
    by (simp add: getPatternValue_def glsl_mod_def)
  have "js_rem 0 2 = Some 0" by (rule js_rem_small) simp
  then have p: "patternValue Checkerboard 0 10 10 0 0 = Some 1" by simp
  show ?thesis using g c k p by simp
qed

text \<open>
  C2, amended: the shader uses the formulas of the CPU with other time coefficients.
  At the position of a cell \<open>(col, row)\<close> of a grid of positive \<^verbatim>\<open>columns\<close> and
  \<^verbatim>\<open>rows\<close>, the shader's Waves value at the time \<open>t\<close> is the CPU's Waves intensity at
  the time \<open>10 * t\<close>, its Ripples value is the CPU's Ripples intensity at the time
  \<open>5 * t\<close>, and its Gradient value is the CPU's Gradient intensity at the time \<open>5 * t\<close>
  when \<open>col + row + 5 * t\<close> is not negative.
\<close>

theorem shader_time_scaling:
  assumes "0 < columns" and "0 < rows"
  shows "getPatternValue (columns, rows) (cl / columns, rw / rows) (patternIndex Waves) t =
           patternValue Waves (10 * t) columns rows cl rw \<and>
         getPatternValue (columns, rows) (cl / columns, rw / rows) (patternIndex Ripples) t =
           patternValue Ripples (5 * t) columns rows cl rw \<and>
         (0 \<le> cl + rw + 5 * t \<longrightarrow>
           getPatternValue (columns, rows) (cl / columns, rw / rows) (patternIndex Gradient) t =
             patternValue Gradient (5 * t) columns rows cl rw)"
proof (intro conjI impI)
  have x: "cl / columns * columns = cl" and y: "rw / rows * rows = rw"
    using assms by simp_all
  show "getPatternValue (columns, rows) (cl / columns, rw / rows) (patternIndex Waves) t =
           patternValue Waves (10 * t) columns rows cl rw"
    using assms by (simp add: getPatternValue_def Let_def)
  show "getPatternValue (columns, rows) (cl / columns, rw / rows) (patternIndex Ripples) t =
           patternValue Ripples (5 * t) columns rows cl rw"
    using assms by (simp add: getPatternValue_def Let_def glsl_length_def)
  assume "0 \<le> cl + rw + 5 * t"
  then have "js_rem (cl + rw + 5 * t) columns = glsl_mod (cl + rw + 5 * t) columns"
    using assms by (intro js_rem_glsl_mod)
  then show "getPatternValue (columns, rows) (cl / columns, rw / rows) (patternIndex Gradient) t =
             patternValue Gradient (5 * t) columns rows cl rw"
    using assms by (simp add: getPatternValue_def Let_def mult.commute)
qed

theorem shader_time_scaling_witness:
  "(0::real) < 10 \<and> (0::real) < 10 \<and>
   getPatternValue (10, 10) (3 / 10, 4 / 10) (patternIndex Waves) 1 =
     patternValue Waves (10 * 1) 10 10 3 4 \<and>
   getPatternValue (10, 10) (3 / 10, 4 / 10) (patternIndex Ripples) 1 =
     patternValue Ripples (5 * 1) 10 10 3 4 \<and>
   (0::real) \<le> 3 + 4 + 5 * 1 \<and>
   getPatternValue (10, 10) (3 / 10, 4 / 10) (patternIndex Gradient) 1 =
     patternValue Gradient (5 * 1) 10 10 3 4"
proof -
  have a: "(0::real) < 10" by simp
  have h: "(0::real) \<le> 3 + 4 + 5 * 1" by simp
  note t = shader_time_scaling [OF a a, of 3 4 1]
  show ?thesis
    using a h t [THEN conjunct1] t [THEN conjunct2, THEN conjunct1]
      t [THEN conjunct2, THEN conjunct2, rule_format, OF h]
    by simp
qed

section \<open>Frames in the store\<close>

lemma indexValue_checkerboard_0: "indexValue Checkerboard 0 1 1 0 = Some 1"
proof -
  have a: "js_rem 0 1 = Some 0" by (rule js_rem_small) simp
  have b: "js_rem 0 2 = Some 0" by (rule js_rem_small) simp
  show ?thesis using a b by (simp add: indexValue_def)
qed

lemma indexValue_checkerboard_5: "indexValue Checkerboard 5 1 1 0 = Some 0"
proof -
  have a: "js_rem 0 1 = Some 0" by (rule js_rem_small) simp
  have b: "js_rem 1 2 = Some 1" by (rule js_rem_small) simp
  show ?thesis using a b by (simp add: indexValue_def)
qed

lemma fillLoop_single:
  "fillLoop patternType time 1 1 0 [v] = [indexValue patternType time 1 1 0]"
  by (simp add: fillLoop_full)

text \<open>
  C4, as claimed: every invocation of a frame generator returns a newly allocated
  sequence and never changes a frame returned before. \<^verbatim>\<open>PatternGenerator\<close> of the
  hybrid renderer does neither: on a grid of one cell, the buffer allocated at the
  reference 0 is returned by the call at time 0 holding the value 1, and the call at
  time 5 returns the same reference 0, now holding the value 0.
\<close>

theorem hybrid_buffer_overwritten:
  "newFloat32Array emptyStore (1 * 1) =
     Some (0, \<lparr>heap = [0 \<mapsto> Float32Array [Some 0]], fresh = 1\<rparr>) \<and>
   generatePattern_hybrid \<lparr>heap = [0 \<mapsto> Float32Array [Some 0]], fresh = 1\<rparr> 0 1 1 Checkerboard 0 =
     Some (0, \<lparr>heap = [0 \<mapsto> Float32Array [Some 1]], fresh = 1\<rparr>) \<and>
   generatePattern_hybrid \<lparr>heap = [0 \<mapsto> Float32Array [Some 1]], fresh = 1\<rparr> 0 1 1 Checkerboard 5 =
     Some (0, \<lparr>heap = [0 \<mapsto> Float32Array [Some 0]], fresh = 1\<rparr>)"
  by (simp add: newFloat32Array_def emptyStore_def generatePattern_hybrid_def fillLoop_single
      indexValue_checkerboard_0 indexValue_checkerboard_5)

lemma generatePattern_hybrid_Some:
  assumes "heap s ref = Some (Float32Array data)"
  shows "generatePattern_hybrid s ref columns rows patternType time =
           Some (ref, s\<lparr>heap := (heap s)(ref \<mapsto>
                   Float32Array (fillLoop patternType time columns rows 0 data))\<rparr>)"
  using assms by (simp add: generatePattern_hybrid_def)

lemma fillLoop_written:
  assumes "k < length data"
  shows "fillLoop patternType time columns rows 0 data ! k =
           (if int k < columns * rows
            then indexValue patternType time columns rows (int k) else data ! k)"
  using fillLoop_nth [OF assms, of patternType time columns rows 0] by simp

text \<open>
  C4, amended: every invocation of \<^verbatim>\<open>generatePattern\<close> of \<^verbatim>\<open>heat-map.tsx\<close> returns a
  reference that was not allocated before, holding the new frame, and leaves every
  array allocated before as it was. Every invocation of
  \<^verbatim>\<open>PatternGenerator.generatePattern\<close> of \<^verbatim>\<open>heat-map-hybrid.tsx\<close> returns the reference
  of the component's one buffer and allocates nothing: it overwrites that buffer in
  place, storing at every index below \<open>columns * rows\<close> that the buffer has the
  intensity computed for that index and keeping the elements beyond, and it changes
  no other array.
\<close>

theorem frame_allocation:
  assumes "wellFormed s"
  shows "fst (generatePattern_ref s columns rows patternType time) \<notin> dom (heap s) \<and>
         heap (snd (generatePattern_ref s columns rows patternType time))
              (fst (generatePattern_ref s columns rows patternType time)) =
           Some (CellArray (generatePattern columns rows patternType time)) \<and>
         (\<forall>r \<in> dom (heap s).
            heap (snd (generatePattern_ref s columns rows patternType time)) r = heap s r) \<and>
         wellFormed (snd (generatePattern_ref s columns rows patternType time)) \<and>
         (\<forall>data. heap s ref = Some (Float32Array data) \<longrightarrow>
            (\<exists>s' data'.
               generatePattern_hybrid s ref columns rows patternType time = Some (ref, s') \<and>
               heap s' ref = Some (Float32Array data') \<and>
               length data' = length data \<and>
               (\<forall>k < length data.
                  data' ! k = (if int k < columns * rows
                               then indexValue patternType time columns rows (int k)
                               else data ! k)) \<and>
               fresh s' = fresh s \<and>
               (\<forall>r. r \<noteq> ref \<longrightarrow> heap s' r = heap s r) \<and>
               wellFormed s'))"
proof (intro conjI allI impI)
  have f: "fresh s \<notin> dom (heap s)" using assms by (auto simp: wellFormed_def)
  show "fst (generatePattern_ref s columns rows patternType time) \<notin> dom (heap s)"
    using f by (simp add: generatePattern_ref_def Let_def)
  show "heap (snd (generatePattern_ref s columns rows patternType time))
              (fst (generatePattern_ref s columns rows patternType time)) =
           Some (CellArray (generatePattern columns rows patternType time))"
    by (simp add: generatePattern_ref_def Let_def)
  show "\<forall>r \<in> dom (heap s).
            heap (snd (generatePattern_ref s columns rows patternType time)) r = heap s r"
    using f by (auto simp: generatePattern_ref_def Let_def)
  show "wellFormed (snd (generatePattern_ref s columns rows patternType time))"
    using assms by (auto simp: generatePattern_ref_def Let_def wellFormed_def)
next
  fix data assume d: "heap s ref = Some (Float32Array data)"
  let ?data' = "fillLoop patternType time columns rows 0 data"
  let ?s' = "s\<lparr>heap := (heap s)(ref \<mapsto> Float32Array ?data')\<rparr>"
  have w: "wellFormed ?s'" using assms d by (auto simp: wellFormed_def)
  have "generatePattern_hybrid s ref columns rows patternType time = Some (ref, ?s') \<and>
        heap ?s' ref = Some (Float32Array ?data') \<and>
        length ?data' = length data \<and>
        (\<forall>k < length data.
           ?data' ! k = (if int k < columns * rows
                         then indexValue patternType time columns rows (int k)
                         else data ! k)) \<and>
        fresh ?s' = fresh s \<and>
        (\<forall>r. r \<noteq> ref \<longrightarrow> heap ?s' r = heap s r) \<and>
        wellFormed ?s'"
    using w by (simp add: generatePattern_hybrid_Some [OF d] fillLoop_written)
  then show "\<exists>s' data'.
               generatePattern_hybrid s ref columns rows patternType time = Some (ref, s') \<and>
               heap s' ref = Some (Float32Array data') \<and>
               length data' = length data \<and>
               (\<forall>k < length data.
                  data' ! k = (if int k < columns * rows
                               then indexValue patternType time columns rows (int k)
                               else data ! k)) \<and>
               fresh s' = fresh s \<and>
               (\<forall>r. r \<noteq> ref \<longrightarrow> heap s' r = heap s r) \<and>
               wellFormed s'"
    by blast
qed

theorem frame_allocation_witness:
  "wellFormed \<lparr>heap = [0 \<mapsto> Float32Array [Some 0]], fresh = 1\<rparr> \<and>
   fst (generatePattern_ref \<lparr>heap = [0 \<mapsto> Float32Array [Some 0]], fresh = 1\<rparr> 1 1 Checkerboard 0) = 1 \<and>
   1 \<notin> dom (heap \<lparr>heap = [0 \<mapsto> Float32Array [Some 0]], fresh = 1\<rparr>) \<and>
   0 \<in> dom (heap \<lparr>heap = [0 \<mapsto> Float32Array [Some 0]], fresh = 1\<rparr>) \<and>
   heap (snd (generatePattern_ref \<lparr>heap = [0 \<mapsto> Float32Array [Some 0]], fresh = 1\<rparr> 1 1 Checkerboard 0)) 0 =
     Some (Float32Array [Some 0]) \<and>
   heap \<lparr>heap = [0 \<mapsto> Float32Array [Some 0]], fresh = 1\<rparr> 0 = Some (Float32Array [Some 0]) \<and>
   (0::nat) < length [Some (0::real)] \<and>
   generatePattern_hybrid \<lparr>heap = [0 \<mapsto> Float32Array [Some 0]], fresh = 1\<rparr> 0 1 1 Checkerboard 0 =
     Some (0, \<lparr>heap = [0 \<mapsto> Float32Array [Some 1]], fresh = 1\<rparr>)"
proof -
  let ?s = "\<lparr>heap = [0 \<mapsto> Float32Array [Some 0]], fresh = 1\<rparr>"
  have w: "wellFormed ?s" by (simp add: wellFormed_def)
  have d: "0 \<in> dom (heap ?s)" by simp
  have b: "heap ?s 0 = Some (Float32Array [Some 0])" by simp
  have r: "fst (generatePattern_ref ?s 1 1 Checkerboard 0) = 1"
    by (simp add: generatePattern_ref_def)
  note t = frame_allocation [OF w, of 1 1 Checkerboard 0 0]
  have a: "1 \<notin> dom (heap ?s)" using t [THEN conjunct1] r by simp
  have c: "heap (snd (generatePattern_ref ?s 1 1 Checkerboard 0)) 0 = Some (Float32Array [Some 0])"
    using t [THEN conjunct2, THEN conjunct2, THEN conjunct1, rule_format, OF d] by simp
  obtain s' data' where
    h: "generatePattern_hybrid ?s 0 1 1 Checkerboard 0 = Some (0, s')"
      "heap s' 0 = Some (Float32Array data')"
      "length data' = length [Some (0::real)]"
      "\<forall>k < length [Some (0::real)].
          data' ! k = (if int k < 1 * 1 then indexValue Checkerboard 0 1 1 (int k)
                       else [Some 0] ! k)"
      "fresh s' = fresh ?s"
      "\<forall>r. r \<noteq> 0 \<longrightarrow> heap s' r = heap ?s r"
    using t [THEN conjunct2, THEN conjunct2, THEN conjunct2, THEN conjunct2, rule_format, OF b]
    by blast
  have "data' ! 0 = Some 1" using h(4) by (simp add: indexValue_checkerboard_0)
  then have "data' = [Some 1]" using h(3) by (cases data') simp_all
  then have hp: "heap s' = [0 \<mapsto> Float32Array [Some 1]]"
    using h(2) h(6) by (intro ext) simp
  have "s' = \<lparr>heap = [0 \<mapsto> Float32Array [Some 1]], fresh = 1\<rparr>"
    using hp h(5) by (cases s') simp
  then show ?thesis using w r a d c b h(1) by simp
qed

lemma mountPatternGenerator_Some:
  assumes "0 \<le> columns * rows"
  shows "mountPatternGenerator s columns rows =
           Some (\<lparr>dataRef = fresh s, timeRef = 0\<rparr>,
                 s\<lparr>heap := (heap s)(fresh s \<mapsto>
                        Float32Array (replicate (nat (columns * rows)) (Some 0))),
                   fresh := fresh s + 1\<rparr>)"
  using assms by (simp add: mountPatternGenerator_def newFloat32Array_def)




lemma cubeAt_cell:
  assumes "0 < columns" "0 \<le> c" "c < columns" "0 \<le> r"
    and "nat (r * columns + c) < length data"
  shows "cubeAt columns data (r * columns + c) =
           (Some (of_int c), Some r,
            map_option (\<lambda>value. \<lfloor>value * 10\<rfloor>) (data ! nat (r * columns + c)))"
proof -
  have ge: "0 \<le> r * columns + c" using assms by simp
  have m: "(r * columns + c) mod columns = c" using assms by simp
  have d: "(r * columns + c) div columns = r" using assms by simp
  have a: "js_rem (of_int (r * columns + c)) (of_int columns) = Some (of_int c)"
    using js_rem_of_int [OF ge assms(1)] m by simp
  have b: "\<lfloor>(of_int (r * columns + c) :: real) / of_int columns\<rfloor> = r"
    using d by (simp only: floor_divide_of_int_eq)
  have g: "typedArrayGet data (r * columns + c) = data ! nat (r * columns + c)"
    using ge assms(5) by (simp add: typedArrayGet_def)
  show ?thesis unfolding cubeAt_def a b g using assms(1) by simp
qed






text \<open>
  C5, as claimed: with \<^verbatim>\<open>columns <= 0\<close> or \<^verbatim>\<open>rows <= 0\<close> the frame generator returns a
  fallback of intensity 0 and count 0 and does not fail. The code has no such guard:
  \<^verbatim>\<open>generatePattern\<close> of \<^verbatim>\<open>heat-map.tsx\<close> returns no cell at all, the Gradient formula
  with \<^verbatim>\<open>columns = 0\<close> is NaN, mounting the hybrid \<^verbatim>\<open>PatternGenerator\<close> for a grid of -1
  by 20 is a RangeError, and for a grid of -2 by -3 it allocates six elements, of
  which the first frame sets the one at index 0 to the intensity 1.
\<close>

theorem no_fallback_for_degenerate_grid:
  "generatePattern 0 20 Gradient 1 = [] \<and>
   patternValue Gradient 1 0 20 0 0 = None \<and>
   mountPatternGenerator emptyStore (- 1) 20 = None \<and>
   mountPatternGenerator emptyStore (- 2) (- 3) =
     Some (\<lparr>dataRef = 0, timeRef = 0\<rparr>,
           \<lparr>heap = [0 \<mapsto> Float32Array (replicate 6 (Some 0))], fresh = 1\<rparr>) \<and>
   fillLoop Checkerboard 0.05 (- 2) (- 3) 0 (replicate 6 (Some 0)) ! 0 = Some 1"
proof -
  have a: "generatePattern 0 20 Gradient 1 = []" by (simp add: generatePattern_empty)
  have b: "patternValue Gradient 1 0 20 0 0 = None" by (simp add: js_rem_def)
  have c: "mountPatternGenerator emptyStore (- 1) 20 = None"
    by (simp add: mountPatternGenerator_def newFloat32Array_def)
  have d: "mountPatternGenerator emptyStore (- 2) (- 3) =
     Some (\<lparr>dataRef = 0, timeRef = 0\<rparr>,
           \<lparr>heap = [0 \<mapsto> Float32Array (replicate 6 (Some 0))], fresh = 1\<rparr>)"
    by (simp add: mountPatternGenerator_def newFloat32Array_def emptyStore_def)
  have r1: "js_rem 0 (- 2) = Some 0" by (rule js_rem_small) simp
  have r2: "js_rem 0 2 = Some 0" by (rule js_rem_small) simp
  have i: "indexValue Checkerboard 0.05 (- 2) (- 3) 0 = Some 1"
    using r1 r2 by (simp add: indexValue_def)
  have e: "fillLoop Checkerboard 0.05 (- 2) (- 3) 0 (replicate 6 (Some 0)) ! 0 = Some 1"
    using i by (simp add: fillLoop_written)
  show ?thesis using a b c d e by simp
qed

lemma generatePattern_hybrid_no_step:
  assumes "columns * rows \<le> 0" and "heap s ref = Some (Float32Array data)"
  shows "generatePattern_hybrid s ref columns rows patternType time = Some (ref, s)"
proof -
  have "fillLoop patternType time columns rows 0 data = data"
    using assms(1) by (rule fillLoop_done)
  moreover have "(heap s)(ref \<mapsto> Float32Array data) = heap s"
    using assms(2) by (simp add: fun_upd_idem)
  ultimately show ?thesis by (simp add: generatePattern_hybrid_Some [OF assms(2)])
qed

lemma runFrames_no_step:
  assumes "columns * rows \<le> 0" and "heap s (dataRef g) = Some (Float32Array data)"
  shows "\<exists>g'. runFrames s g columns rows ps = Some (g', s) \<and> dataRef g' = dataRef g"
  using assms(2)
proof (induction ps arbitrary: g)
  case Nil
  then show ?case by simp
next
  case (Cons q ps)
  obtain pattern animationSpeed where q: "q = (pattern, animationSpeed)" by (cases q)
  let ?g = "g\<lparr>timeRef := timeRef g + 0.05 * animationSpeed\<rparr>"
  have u: "useFrame s g columns rows animationSpeed pattern = Some (?g, s)"
    unfolding useFrame_def Let_def
      generatePattern_hybrid_no_step [OF assms(1) Cons.prems] by simp
  have "heap s (dataRef ?g) = Some (Float32Array data)" using Cons.prems by simp
  from Cons.IH [OF this] obtain g' where
    "runFrames s ?g columns rows ps = Some (g', s)" "dataRef g' = dataRef ?g" by blast
  then show ?case unfolding q runFrames.simps u by simp
qed

text \<open>
  C5, amended: with \<^verbatim>\<open>columns <= 0\<close> or \<^verbatim>\<open>rows <= 0\<close>, \<^verbatim>\<open>generatePattern\<close> of
  \<^verbatim>\<open>heat-map.tsx\<close> returns the empty array: its loops run no step, so no cell is
  computed and the Gradient division by \<^verbatim>\<open>columns\<close> is not evaluated. With
  \<^verbatim>\<open>columns = 0\<close> or \<^verbatim>\<open>rows = 0\<close>, \<^verbatim>\<open>PatternGenerator.generatePattern\<close> of the hybrid
  renderer returns and leaves the store as it is; the buffer allocated at mount is
  empty, and every run of frames returns and leaves the store as it is.
\<close>

theorem zero_size_grid:
  "(columns \<le> 0 \<or> rows \<le> 0 \<longrightarrow> generatePattern columns rows patternType time = []) \<and>
   (columns = 0 \<or> rows = 0 \<longrightarrow>
      (\<forall>data. heap s ref = Some (Float32Array data) \<longrightarrow>
         generatePattern_hybrid s ref columns rows patternType time = Some (ref, s)) \<and>
      (\<exists>g0 s0. mountPatternGenerator s columns rows = Some (g0, s0) \<and>
         heap s0 (dataRef g0) = Some (Float32Array []) \<and>
         (\<forall>ps. \<exists>g. runFrames s0 g0 columns rows ps = Some (g, s0) \<and> dataRef g = dataRef g0)))"
proof (intro conjI impI)
  assume "columns \<le> 0 \<or> rows \<le> 0"
  then show "generatePattern columns rows patternType time = []"
    by (rule generatePattern_empty)
next
  assume z: "columns = 0 \<or> rows = 0"
  then have p: "columns * rows = 0" by auto
  have le: "columns * rows \<le> 0" and ge: "0 \<le> columns * rows" unfolding p by simp_all
  show "\<forall>data. heap s ref = Some (Float32Array data) \<longrightarrow>
         generatePattern_hybrid s ref columns rows patternType time = Some (ref, s)"
    using generatePattern_hybrid_no_step [OF le] by blast
  let ?gm = "\<lparr>dataRef = fresh s, timeRef = 0\<rparr>"
  let ?sm = "s\<lparr>heap := (heap s)(fresh s \<mapsto> Float32Array []), fresh := fresh s + 1\<rparr>"
  have m: "mountPatternGenerator s columns rows = Some (?gm, ?sm)"
    unfolding mountPatternGenerator_Some [OF ge] unfolding p by simp
  have h: "heap ?sm (dataRef ?gm) = Some (Float32Array [])" by simp
  have "\<forall>ps. \<exists>g. runFrames ?sm ?gm columns rows ps = Some (g, ?sm) \<and> dataRef g = dataRef ?gm"
    using runFrames_no_step [OF le h] by blast
  then show "\<exists>g0 s0. mountPatternGenerator s columns rows = Some (g0, s0) \<and>
         heap s0 (dataRef g0) = Some (Float32Array []) \<and>
         (\<forall>ps. \<exists>g. runFrames s0 g0 columns rows ps = Some (g, s0) \<and> dataRef g = dataRef g0)"
    using m h by blast
qed

theorem zero_size_grid_witness:
  "((0::int) \<le> 0 \<or> (20::int) \<le> 0) \<and> generatePattern 0 20 Gradient 1 = [] \<and>
   ((0::int) = 0 \<or> (20::int) = 0) \<and>
   heap \<lparr>heap = [0 \<mapsto> Float32Array [Some 7]], fresh = 1\<rparr> 0 = Some (Float32Array [Some 7]) \<and>
   generatePattern_hybrid \<lparr>heap = [0 \<mapsto> Float32Array [Some 7]], fresh = 1\<rparr> 0 0 20 Gradient 1 =
     Some (0, \<lparr>heap = [0 \<mapsto> Float32Array [Some 7]], fresh = 1\<rparr>) \<and>
   (\<exists>g0 s0 g. mountPatternGenerator \<lparr>heap = [0 \<mapsto> Float32Array [Some 7]], fresh = 1\<rparr> 0 20 =
        Some (g0, s0) \<and>
      heap s0 (dataRef g0) = Some (Float32Array []) \<and>
      runFrames s0 g0 0 20 [(Gradient, 1), (Spiral, 2)] = Some (g, s0))"
proof -
  let ?s = "\<lparr>heap = [0 \<mapsto> Float32Array [Some 7]], fresh = 1\<rparr>"
  have a: "(0::int) \<le> 0 \<or> (20::int) \<le> 0" and b: "(0::int) = 0 \<or> (20::int) = 0" by simp_all
  have d: "heap ?s 0 = Some (Float32Array [Some 7])" by simp
  note t = zero_size_grid [of 0 20 Gradient 1 ?s 0]
  note t2 = t [THEN conjunct2, rule_format, OF b]
  have e: "generatePattern 0 20 Gradient 1 = []" using t [THEN conjunct1, rule_format, OF a] .
  have f: "generatePattern_hybrid ?s 0 0 20 Gradient 1 = Some (0, ?s)"
    using t2 [THEN conjunct1, rule_format, OF d] .
  obtain g0 s0 where
    m: "mountPatternGenerator ?s 0 20 = Some (g0, s0)"
       "heap s0 (dataRef g0) = Some (Float32Array [])"
       "\<forall>ps. \<exists>g. runFrames s0 g0 0 20 ps = Some (g, s0) \<and> dataRef g = dataRef g0"
    using t2 [THEN conjunct2] by blast
  obtain g where "runFrames s0 g0 0 20 [(Gradient, 1), (Spiral, 2)] = Some (g, s0)"
    using m(3) by blast
  then have h: "\<exists>g0 s0 g. mountPatternGenerator ?s 0 20 = Some (g0, s0) \<and>
      heap s0 (dataRef g0) = Some (Float32Array []) \<and>
      runFrames s0 g0 0 20 [(Gradient, 1), (Spiral, 2)] = Some (g, s0)"
    using m(1) m(2) by blast
  show ?thesis using a b d e f h by simp
qed

lemma fillLoop_in_grid:
  assumes "0 \<le> c" "c < columns" "0 \<le> r" "r < rows"
    and "nat (r * columns + c) < length data"
  shows "fillLoop pattern time columns rows 0 data ! nat (r * columns + c) =
           patternValue pattern time (of_int columns) (of_int rows) (of_int c) (of_int r)"
proof -
  have "r * columns + c < r * columns + columns" using assms by simp
  also have "\<dots> = (r + 1) * columns" by (simp add: algebra_simps)
  also have "\<dots> \<le> rows * columns" using assms by (intro mult_right_mono) simp_all
  finally have lt: "r * columns + c < columns * rows" by (simp add: mult.commute)
  have ge: "0 \<le> r * columns + c" using assms by simp
  show ?thesis
    using lt ge assms by (simp add: fillLoop_written [OF assms(5)] indexValue_decode)
qed

text \<open>
  C9. What a frame generator emits for a cell is the engine's function of \<^verbatim>\<open>col\<close>,
  \<^verbatim>\<open>row\<close>, \<^verbatim>\<open>columns\<close>, \<^verbatim>\<open>rows\<close>, the pattern and the time, and of nothing else. In any
  two stores \<^verbatim>\<open>generatePattern\<close> of \<^verbatim>\<open>heat-map.tsx\<close> returns the same frame, whose cell
  \<open>(col, row)\<close> has the count \<open>patternCount\<close> of these six arguments. In any two stores,
  whatever the two buffers held before and whatever their lengths,
  \<^verbatim>\<open>PatternGenerator.generatePattern\<close> of the hybrid renderer stores, at the index of
  every cell of the grid that lies within both buffers, the intensity \<open>patternValue\<close>
  of the six arguments, and the consumer \<^verbatim>\<open>Cubes\<close> takes from either buffer the count
  \<open>patternCount\<close> of the six arguments.
\<close>

theorem engine_deterministic:
  "(\<exists>frame.
      heap (snd (generatePattern_ref s1 columns rows patternType time))
           (fst (generatePattern_ref s1 columns rows patternType time)) = Some (CellArray frame) \<and>
      heap (snd (generatePattern_ref s2 columns rows patternType time))
           (fst (generatePattern_ref s2 columns rows patternType time)) = Some (CellArray frame) \<and>
      (\<forall>c r. 0 \<le> c \<and> c < columns \<and> 0 \<le> r \<and> r < rows \<longrightarrow>
         count (frame ! nat (c * rows + r)) =
           patternCount patternType time (of_int columns) (of_int rows) (of_int c) (of_int r))) \<and>
   (\<forall>data1 data2.
      heap s1 ref1 = Some (Float32Array data1) \<and> heap s2 ref2 = Some (Float32Array data2) \<longrightarrow>
      (\<exists>s1' s2' frame1 frame2.
         generatePattern_hybrid s1 ref1 columns rows patternType time = Some (ref1, s1') \<and>
         generatePattern_hybrid s2 ref2 columns rows patternType time = Some (ref2, s2') \<and>
         heap s1' ref1 = Some (Float32Array frame1) \<and>
         heap s2' ref2 = Some (Float32Array frame2) \<and>
         (\<forall>c r. 0 \<le> c \<and> c < columns \<and> 0 \<le> r \<and> r < rows \<and>
                nat (r * columns + c) < length data1 \<and> nat (r * columns + c) < length data2 \<longrightarrow>
            frame1 ! nat (r * columns + c) =
              patternValue patternType time (of_int columns) (of_int rows) (of_int c) (of_int r) \<and>
            frame2 ! nat (r * columns + c) =
              patternValue patternType time (of_int columns) (of_int rows) (of_int c) (of_int r) \<and>
            cubeAt columns frame1 (r * columns + c) =
              (Some (of_int c), Some r,
               patternCount patternType time (of_int columns) (of_int rows) (of_int c) (of_int r)) \<and>
            cubeAt columns frame2 (r * columns + c) = cubeAt columns frame1 (r * columns + c))))"
proof (intro conjI allI impI)
  let ?frame = "generatePattern columns rows patternType time"
  have "\<forall>c r. 0 \<le> c \<and> c < columns \<and> 0 \<le> r \<and> r < rows \<longrightarrow>
         count (?frame ! nat (c * rows + r)) =
           patternCount patternType time (of_int columns) (of_int rows) (of_int c) (of_int r)"
    by (simp add: generatePattern_nth cellAt_def)
  then show "\<exists>frame.
      heap (snd (generatePattern_ref s1 columns rows patternType time))
           (fst (generatePattern_ref s1 columns rows patternType time)) = Some (CellArray frame) \<and>
      heap (snd (generatePattern_ref s2 columns rows patternType time))
           (fst (generatePattern_ref s2 columns rows patternType time)) = Some (CellArray frame) \<and>
      (\<forall>c r. 0 \<le> c \<and> c < columns \<and> 0 \<le> r \<and> r < rows \<longrightarrow>
         count (frame ! nat (c * rows + r)) =
           patternCount patternType time (of_int columns) (of_int rows) (of_int c) (of_int r))"
    by (intro exI [of _ ?frame]) (simp add: generatePattern_ref_def Let_def)
next
  fix data1 data2
  assume h: "heap s1 ref1 = Some (Float32Array data1) \<and> heap s2 ref2 = Some (Float32Array data2)"
  let ?f1 = "fillLoop patternType time columns rows 0 data1"
  let ?f2 = "fillLoop patternType time columns rows 0 data2"
  let ?t1 = "s1\<lparr>heap := (heap s1)(ref1 \<mapsto> Float32Array ?f1)\<rparr>"
  let ?t2 = "s2\<lparr>heap := (heap s2)(ref2 \<mapsto> Float32Array ?f2)\<rparr>"
  have g1: "generatePattern_hybrid s1 ref1 columns rows patternType time = Some (ref1, ?t1)"
    using h by (intro generatePattern_hybrid_Some) simp
  have g2: "generatePattern_hybrid s2 ref2 columns rows patternType time = Some (ref2, ?t2)"
    using h by (intro generatePattern_hybrid_Some) simp
  have cells: "?f1 ! nat (r * columns + c) =
              patternValue patternType time (of_int columns) (of_int rows) (of_int c) (of_int r) \<and>
            ?f2 ! nat (r * columns + c) =
              patternValue patternType time (of_int columns) (of_int rows) (of_int c) (of_int r) \<and>
            cubeAt columns ?f1 (r * columns + c) =
              (Some (of_int c), Some r,
               patternCount patternType time (of_int columns) (of_int rows) (of_int c) (of_int r)) \<and>
            cubeAt columns ?f2 (r * columns + c) = cubeAt columns ?f1 (r * columns + c)"
    if a: "0 \<le> c \<and> c < columns \<and> 0 \<le> r \<and> r < rows \<and>
           nat (r * columns + c) < length data1 \<and> nat (r * columns + c) < length data2"
    for c r
  proof -
    have pos: "0 < columns" using a by simp
    have v1: "?f1 ! nat (r * columns + c) =
        patternValue patternType time (of_int columns) (of_int rows) (of_int c) (of_int r)"
      using a by (intro fillLoop_in_grid) simp_all
    have v2: "?f2 ! nat (r * columns + c) =
        patternValue patternType time (of_int columns) (of_int rows) (of_int c) (of_int r)"
      using a by (intro fillLoop_in_grid) simp_all
    have k1: "nat (r * columns + c) < length ?f1" and k2: "nat (r * columns + c) < length ?f2"
      using a by simp_all
    have c1: "cubeAt columns ?f1 (r * columns + c) =
        (Some (of_int c), Some r,
         patternCount patternType time (of_int columns) (of_int rows) (of_int c) (of_int r))"
      using cubeAt_cell [of columns c r ?f1] pos a k1 v1 by (simp add: count_of_value)
    have c2: "cubeAt columns ?f2 (r * columns + c) =
        (Some (of_int c), Some r,
         patternCount patternType time (of_int columns) (of_int rows) (of_int c) (of_int r))"
      using cubeAt_cell [of columns c r ?f2] pos a k2 v2 by (simp add: count_of_value)
    show ?thesis using v1 v2 c1 c2 by simp
  qed
  have "heap ?t1 ref1 = Some (Float32Array ?f1)" "heap ?t2 ref2 = Some (Float32Array ?f2)"
    by simp_all
  then show "\<exists>s1' s2' frame1 frame2.
         generatePattern_hybrid s1 ref1 columns rows patternType time = Some (ref1, s1') \<and>
         generatePattern_hybrid s2 ref2 columns rows patternType time = Some (ref2, s2') \<and>
         heap s1' ref1 = Some (Float32Array frame1) \<and>
         heap s2' ref2 = Some (Float32Array frame2) \<and>
         (\<forall>c r. 0 \<le> c \<and> c < columns \<and> 0 \<le> r \<and> r < rows \<and>
                nat (r * columns + c) < length data1 \<and> nat (r * columns + c) < length data2 \<longrightarrow>
            frame1 ! nat (r * columns + c) =
              patternValue patternType time (of_int columns) (of_int rows) (of_int c) (of_int r) \<and>
            frame2 ! nat (r * columns + c) =
              patternValue patternType time (of_int columns) (of_int rows) (of_int c) (of_int r) \<and>
            cubeAt columns frame1 (r * columns + c) =
              (Some (of_int c), Some r,
               patternCount patternType time (of_int columns) (of_int rows) (of_int c) (of_int r)) \<and>
            cubeAt columns frame2 (r * columns + c) = cubeAt columns frame1 (r * columns + c))"
    using g1 g2 cells by blast
qed

theorem engine_deterministic_witness:
  "heap \<lparr>heap = [0 \<mapsto> Float32Array [Some 0]], fresh = 1\<rparr> 0 = Some (Float32Array [Some 0]) \<and>
   heap \<lparr>heap = [3 \<mapsto> Float32Array [Some 1, Some 9]], fresh = 4\<rparr> 3 =
     Some (Float32Array [Some 1, Some 9]) \<and>
   (0::int) \<le> 0 \<and> (0::int) < 1 \<and>
   nat (0 * 1 + 0) < length [Some (0::real)] \<and> nat (0 * 1 + 0) < length [Some (1::real), Some 9] \<and>
   (\<exists>frame.
      heap (snd (generatePattern_ref \<lparr>heap = [0 \<mapsto> Float32Array [Some 0]], fresh = 1\<rparr> 1 1 Checkerboard 5))
           (fst (generatePattern_ref \<lparr>heap = [0 \<mapsto> Float32Array [Some 0]], fresh = 1\<rparr> 1 1 Checkerboard 5)) =
        Some (CellArray frame) \<and>
      heap (snd (generatePattern_ref \<lparr>heap = [3 \<mapsto> Float32Array [Some 1, Some 9]], fresh = 4\<rparr> 1 1 Checkerboard 5))
           (fst (generatePattern_ref \<lparr>heap = [3 \<mapsto> Float32Array [Some 1, Some 9]], fresh = 4\<rparr> 1 1 Checkerboard 5)) =
        Some (CellArray frame) \<and>
      count (frame ! 0) = patternCount Checkerboard 5 1 1 0 0) \<and>
   (\<exists>s1' s2' frame1 frame2.
      generatePattern_hybrid \<lparr>heap = [0 \<mapsto> Float32Array [Some 0]], fresh = 1\<rparr> 0 1 1 Checkerboard 5 =
        Some (0, s1') \<and>
      generatePattern_hybrid \<lparr>heap = [3 \<mapsto> Float32Array [Some 1, Some 9]], fresh = 4\<rparr> 3 1 1 Checkerboard 5 =
        Some (3, s2') \<and>
      heap s1' 0 = Some (Float32Array frame1) \<and>
      heap s2' 3 = Some (Float32Array frame2) \<and>
      frame1 ! 0 = patternValue Checkerboard 5 1 1 0 0 \<and>
      frame2 ! 0 = patternValue Checkerboard 5 1 1 0 0 \<and>
      cubeAt 1 frame1 0 = (Some 0, Some 0, patternCount Checkerboard 5 1 1 0 0) \<and>
      cubeAt 1 frame2 0 = cubeAt 1 frame1 0)"
proof -
  let ?s1 = "\<lparr>heap = [0 \<mapsto> Float32Array [Some 0]], fresh = 1\<rparr>"
  let ?s2 = "\<lparr>heap = [3 \<mapsto> Float32Array [Some 1, Some 9]], fresh = 4\<rparr>"
  note t = engine_deterministic [of ?s1 1 1 Checkerboard 5 ?s2 0 3]
  have p: "heap ?s1 0 = Some (Float32Array [Some 0]) \<and>
           heap ?s2 3 = Some (Float32Array [Some 1, Some 9])"
    by simp
  have q: "(0::int) \<le> 0 \<and> (0::int) < 1 \<and> (0::int) \<le> 0 \<and> (0::int) < 1 \<and>
           nat (0 * 1 + 0) < length [Some (0::real)] \<and>
           nat (0 * 1 + 0) < length [Some (1::real), Some 9]"
    by simp
  obtain frame where
    f: "heap (snd (generatePattern_ref ?s1 1 1 Checkerboard 5))
             (fst (generatePattern_ref ?s1 1 1 Checkerboard 5)) = Some (CellArray frame)"
       "heap (snd (generatePattern_ref ?s2 1 1 Checkerboard 5))
             (fst (generatePattern_ref ?s2 1 1 Checkerboard 5)) = Some (CellArray frame)"
       "\<forall>c r. 0 \<le> c \<and> c < 1 \<and> 0 \<le> r \<and> r < 1 \<longrightarrow>
          count (frame ! nat (c * 1 + r)) =
            patternCount Checkerboard 5 (of_int 1) (of_int 1) (of_int c) (of_int r)"
    using t [THEN conjunct1] by blast
  have fc: "count (frame ! 0) = patternCount Checkerboard 5 1 1 0 0"
    using f(3) [rule_format, of 0 0] by simp
  obtain s1' s2' frame1 frame2 where
    h: "generatePattern_hybrid ?s1 0 1 1 Checkerboard 5 = Some (0, s1')"
       "generatePattern_hybrid ?s2 3 1 1 Checkerboard 5 = Some (3, s2')"
       "heap s1' 0 = Some (Float32Array frame1)"
       "heap s2' 3 = Some (Float32Array frame2)"
       "\<forall>c r. 0 \<le> c \<and> c < 1 \<and> 0 \<le> r \<and> r < 1 \<and>
              nat (r * 1 + c) < length [Some (0::real)] \<and>
              nat (r * 1 + c) < length [Some (1::real), Some 9] \<longrightarrow>
          frame1 ! nat (r * 1 + c) =
            patternValue Checkerboard 5 (of_int 1) (of_int 1) (of_int c) (of_int r) \<and>
          frame2 ! nat (r * 1 + c) =
            patternValue Checkerboard 5 (of_int 1) (of_int 1) (of_int c) (of_int r) \<and>
          cubeAt 1 frame1 (r * 1 + c) =
            (Some (of_int c), Some r,
             patternCount Checkerboard 5 (of_int 1) (of_int 1) (of_int c) (of_int r)) \<and>
          cubeAt 1 frame2 (r * 1 + c) = cubeAt 1 frame1 (r * 1 + c)"
    using t [THEN conjunct2, rule_format, OF p] by blast
  have hc: "frame1 ! 0 = patternValue Checkerboard 5 1 1 0 0 \<and>
            frame2 ! 0 = patternValue Checkerboard 5 1 1 0 0 \<and>
            cubeAt 1 frame1 0 = (Some 0, Some 0, patternCount Checkerboard 5 1 1 0 0) \<and>
            cubeAt 1 frame2 0 = cubeAt 1 frame1 0"
    using h(5) [rule_format, of 0 0] by simp
  have e1: "\<exists>frame.
      heap (snd (generatePattern_ref ?s1 1 1 Checkerboard 5))
           (fst (generatePattern_ref ?s1 1 1 Checkerboard 5)) = Some (CellArray frame) \<and>
      heap (snd (generatePattern_ref ?s2 1 1 Checkerboard 5))
           (fst (generatePattern_ref ?s2 1 1 Checkerboard 5)) = Some (CellArray frame) \<and>
      count (frame ! 0) = patternCount Checkerboard 5 1 1 0 0"
    using f(1) f(2) fc by blast
  have e2: "\<exists>s1' s2' frame1 frame2.
      generatePattern_hybrid ?s1 0 1 1 Checkerboard 5 = Some (0, s1') \<and>
      generatePattern_hybrid ?s2 3 1 1 Checkerboard 5 = Some (3, s2') \<and>
      heap s1' 0 = Some (Float32Array frame1) \<and>
      heap s2' 3 = Some (Float32Array frame2) \<and>
      frame1 ! 0 = patternValue Checkerboard 5 1 1 0 0 \<and>
      frame2 ! 0 = patternValue Checkerboard 5 1 1 0 0 \<and>
      cubeAt 1 frame1 0 = (Some 0, Some 0, patternCount Checkerboard 5 1 1 0 0) \<and>
      cubeAt 1 frame2 0 = cubeAt 1 frame1 0"
    using h(1) h(2) h(3) h(4) hc by blast
  show ?thesis
    apply (intro conjI)
    using p q e1 e2 by simp_all
qed

end
